theory Spec2Isabelle
  imports Complex_Main "HOL-Library.Word"
begin

section \<open>JavaScript strings\<close>

text \<open>
  A JavaScript string is a sequence of UTF-16 code units, and \<open>.length\<close>, \<open>.slice\<close>,
  \<open>.trim\<close>, \<open>.includes\<close> and a regular expression without the \<open>u\<close> flag all work on
  code units. The literals of the two source files are ASCII; \<open>js\<close> embeds them.
\<close>

type_synonym code_unit = "16 word"
type_synonym jsstring = "code_unit list"

definition cu :: "char \<Rightarrow> code_unit" where
  "cu c = of_nat (of_char c)"

definition js :: "string \<Rightarrow> jsstring" where
  "js s = map cu s"

text \<open>
  \<open>String.prototype.trim\<close> removes leading and trailing WhiteSpace and LineTerminator
  code points (ECMA-262, 22.1.3.32): TAB, VT, FF, SP, NBSP, ZWNBSP, the Unicode
  space separators, LF, CR, LS and PS. All of them are single code units.
\<close>

definition isWhiteSpace :: "code_unit \<Rightarrow> bool" where
  "isWhiteSpace c \<longleftrightarrow>
     c = 0x0009 \<or> c = 0x000A \<or> c = 0x000B \<or> c = 0x000C \<or> c = 0x000D \<or> c = 0x0020 \<or>
     c = 0x00A0 \<or> c = 0x1680 \<or> (0x2000 \<le> c \<and> c \<le> 0x200A) \<or> c = 0x2028 \<or>
     c = 0x2029 \<or> c = 0x202F \<or> c = 0x205F \<or> c = 0x3000 \<or> c = 0xFEFF"

definition trim :: "jsstring \<Rightarrow> jsstring" where
  "trim s = rev (dropWhile isWhiteSpace (rev (dropWhile isWhiteSpace s)))"

text \<open>\<open>s.includes(t)\<close>: \<open>t\<close> occurs in \<open>s\<close> as a contiguous run of code units.\<close>

fun startsWith :: "jsstring \<Rightarrow> jsstring \<Rightarrow> bool" where
  "startsWith s [] = True"
| "startsWith [] (y # ys) = False"
| "startsWith (x # xs) (y # ys) = (x = y \<and> startsWith xs ys)"

fun str_includes :: "jsstring \<Rightarrow> jsstring \<Rightarrow> bool" where
  "str_includes [] t = (t = [])"
| "str_includes (x # xs) t = (startsWith (x # xs) t \<or> str_includes xs t)"

section \<open>The generation endpoint (src/app/api/generate/route.ts)\<close>

subsection \<open>Values read from the request\<close>

text \<open>
  \<open>request.json()\<close> yields an arbitrary JSON value; the declared type
  \<open>GenerateRequest\<close> is not enforced at run time, which is why the handler checks each
  field. A number is carried by the value of the parsed double (\<open>1e999\<close> parses to
  \<open>Infinity\<close>; \<open>NaN\<close> cannot come from JSON). An object is carried by the list of
  its own properties, each key once, as the parser leaves them.
\<close>

datatype jsnumber = Finite rat | PosInfinity | NegInfinity

datatype json =
    JNull
  | JBool bool
  | JNum jsnumber
  | JStr jsstring
  | JArr "json list"
  | JObj "(jsstring \<times> json) list"

text \<open>A value thrown and caught: an \<open>Error\<close> instance with its message, or anything else.\<close>

datatype failure = Error jsstring | NotAnError

text \<open>
  The messages of the \<open>TypeError\<close>s that the engine itself raises are not part of the
  repository; they are taken as parameters.
\<close>

record engine =
  destructure_null_message :: jsstring
  read_of_undefined_message :: jsstring

text \<open>
  \<open>const { topic, keyPoints, tone } = body\<close>: destructuring \<open>null\<close> throws; every other
  JSON value is coerced to an object, and a property that is absent reads as
  \<open>undefined\<close> (\<open>None\<close>). Primitive wrappers and arrays have no property of these names.
\<close>

fun property :: "json \<Rightarrow> jsstring \<Rightarrow> json option" where
  "property (JObj kvs) k = map_of kvs k"
| "property _ k = None"

text \<open>\<open>!v\<close> is true for \<open>undefined\<close>, \<open>null\<close>, \<open>false\<close>, zero and the empty string.\<close>

fun truthy :: "json option \<Rightarrow> bool" where
  "truthy None = False"
| "truthy (Some JNull) = False"
| "truthy (Some (JBool b)) = b"
| "truthy (Some (JNum n)) = (n \<noteq> Finite 0)"
| "truthy (Some (JStr s)) = (s \<noteq> [])"
| "truthy (Some (JArr vs)) = True"
| "truthy (Some (JObj kvs)) = True"

fun typeof_string :: "json option \<Rightarrow> bool" where
  "typeof_string (Some (JStr s)) = True"
| "typeof_string _ = False"

text \<open>
  The string behind a value. The handler reads it only after \<open>typeof v !== 'string'\<close>
  has been found false, so the second equation is never reached there.
\<close>

fun string_of :: "json option \<Rightarrow> jsstring" where
  "string_of (Some (JStr s)) = s"
| "string_of _ = []"

definition TONES :: "jsstring list" where
  "TONES = [js ''professional'', js ''casual'', js ''academic'', js ''creative'',
            js ''conversational'']"

text \<open>\<open>Array.prototype.includes\<close> compares with SameValueZero: only an equal string matches.\<close>

fun array_includes :: "jsstring list \<Rightarrow> json option \<Rightarrow> bool" where
  "array_includes xs (Some (JStr s)) = (s \<in> set xs)"
| "array_includes xs _ = False"

subsection \<open>Responses and the provider\<close>

datatype response_body = ErrorBody jsstring | ArticleBody jsstring

record http_response =
  status :: nat
  body :: response_body

record create_params =
  model :: jsstring
  max_tokens :: nat
  user_content :: jsstring

datatype content_block = TextBlock jsstring | OtherBlock

type_synonym provider = "create_params \<Rightarrow> failure + content_block list"

definition newline :: jsstring where
  "newline = [0x000A]"

definition prompt :: "jsstring \<Rightarrow> jsstring \<Rightarrow> jsstring \<Rightarrow> jsstring" where
  "prompt topic_v keyPoints_v tone_v =
     js ''You are an expert content writer. Create a well-structured article draft based on the following information:''
     @ newline @ newline
     @ js ''Topic: '' @ trim topic_v @ newline @ newline
     @ js ''Key Points to Cover:'' @ newline
     @ trim keyPoints_v @ newline @ newline
     @ js ''Tone/Style: '' @ tone_v @ newline @ newline
     @ js ''Requirements:'' @ newline
     @ js ''- Write in '' @ tone_v @ js '' tone'' @ newline
     @ js ''- Include an engaging introduction'' @ newline
     @ js ''- Expand on each key point in separate sections'' @ newline
     @ js ''- Add a conclusion that summarizes key takeaways'' @ newline
     @ js ''- Use markdown formatting (headers, bullet points, bold text)'' @ newline
     @ js ''- Aim for 800-1200 words'' @ newline
     @ js ''- Make it ready to publish with minimal editing'' @ newline @ newline
     @ js ''Generate the article now:''"

subsection \<open>The messages\<close>

definition MSG_TOPIC_REQUIRED :: jsstring where
  "MSG_TOPIC_REQUIRED = js ''Topic is required and must be a non-empty string''"

definition MSG_TOPIC_LENGTH :: jsstring where
  "MSG_TOPIC_LENGTH = js ''Topic must be 200 characters or less''"

definition MSG_KEYPOINTS_REQUIRED :: jsstring where
  "MSG_KEYPOINTS_REQUIRED = js ''Key points are required and must be a non-empty string''"

definition MSG_KEYPOINTS_LENGTH :: jsstring where
  "MSG_KEYPOINTS_LENGTH = js ''Key points must be 2000 characters or less''"

definition MSG_TONE :: jsstring where
  "MSG_TONE = js ''Tone must be one of: professional, casual, academic, creative, conversational''"

definition MSG_NOT_CONFIGURED :: jsstring where
  "MSG_NOT_CONFIGURED =
     js ''ANTHROPIC_API_KEY is not configured. Please add it to your environment variables.''"

definition MSG_INVALID_KEY :: jsstring where
  "MSG_INVALID_KEY =
     js ''Invalid Anthropic API key. Please check your ANTHROPIC_API_KEY environment variable.''"

definition MSG_RATE_LIMIT :: jsstring where
  "MSG_RATE_LIMIT = js ''Rate limit exceeded. Please wait a moment and try again.''"

definition MSG_TIMEOUT :: jsstring where
  "MSG_TIMEOUT = js ''Request timeout. The AI took too long to respond. Please try again.''"

definition MSG_GENERIC :: jsstring where
  "MSG_GENERIC = js ''Failed to generate article. Please try again later.''"

definition ARTICLE_FALLBACK :: jsstring where
  "ARTICLE_FALLBACK = js ''Failed to generate article content''"

definition json_error :: "jsstring \<Rightarrow> nat \<Rightarrow> http_response" where
  "json_error msg st = \<lparr>status = st, body = ErrorBody msg\<rparr>"

subsection \<open>The handler\<close>

text \<open>
  What one run of \<open>POST\<close> does besides answering: the calls it made to the provider and
  the failures it wrote to the log.
\<close>

record post_run =
  response :: http_response
  provider_calls :: "create_params list"
  logged :: "failure list"

text \<open>
  The \<open>try\<close> block (lines 25 to 116). It either returns a response or throws; in both
  cases the provider calls made so far are kept. The inputs are the outcome of
  \<open>request.json()\<close>, the value of \<open>process.env.ANTHROPIC_API_KEY\<close> (\<open>None\<close> when
  unset) and the provider.
\<close>

definition try_block ::
  "engine \<Rightarrow> failure + json \<Rightarrow> jsstring option \<Rightarrow> provider
     \<Rightarrow> (failure + http_response) \<times> create_params list" where
  "try_block eng parsed api_key anthropic =
    (case parsed of
       Inl e \<Rightarrow> (Inl e, [])
     | Inr JNull \<Rightarrow> (Inl (Error (destructure_null_message eng)), [])
     | Inr b \<Rightarrow>
        (let topic_v = property b (js ''topic'');
             keyPoints_v = property b (js ''keyPoints'');
             tone_v = property b (js ''tone'')
         in
           if \<not> truthy topic_v \<or> \<not> typeof_string topic_v
              \<or> length (trim (string_of topic_v)) = 0
           then (Inr (json_error MSG_TOPIC_REQUIRED 400), [])
           else if length (trim (string_of topic_v)) > 200
           then (Inr (json_error MSG_TOPIC_LENGTH 400), [])
           else if \<not> truthy keyPoints_v \<or> \<not> typeof_string keyPoints_v
              \<or> length (trim (string_of keyPoints_v)) = 0
           then (Inr (json_error MSG_KEYPOINTS_REQUIRED 400), [])
           else if length (trim (string_of keyPoints_v)) > 2000
           then (Inr (json_error MSG_KEYPOINTS_LENGTH 400), [])
           else if \<not> truthy tone_v \<or> \<not> array_includes TONES tone_v
           then (Inr (json_error MSG_TONE 400), [])
           else if (case api_key of None \<Rightarrow> True | Some k \<Rightarrow> k = [])
           then (Inr (json_error MSG_NOT_CONFIGURED 500), [])
           else
             (let params = \<lparr>model = js ''claude-sonnet-4-5-20250929'', max_tokens = 4096,
                            user_content = prompt (string_of topic_v) (string_of keyPoints_v)
                                             (string_of tone_v)\<rparr>
              in case anthropic params of
                   Inl e \<Rightarrow> (Inl e, [params])
                 | Inr [] \<Rightarrow> (Inl (Error (read_of_undefined_message eng)), [params])
                 | Inr (TextBlock t # rest) \<Rightarrow>
                     (Inr \<lparr>status = 200, body = ArticleBody t\<rparr>, [params])
                 | Inr (OtherBlock # rest) \<Rightarrow>
                     (Inr \<lparr>status = 200, body = ArticleBody ARTICLE_FALLBACK\<rparr>, [params]))))"

text \<open>The \<open>catch\<close> block (lines 118 to 150), after the failure has been logged.\<close>

definition catch_block :: "failure \<Rightarrow> http_response" where
  "catch_block e =
    (case e of
       Error message \<Rightarrow>
         if str_includes message (js ''401'') \<or> str_includes message (js ''authentication'')
         then json_error MSG_INVALID_KEY 500
         else if str_includes message (js ''429'') \<or> str_includes message (js ''rate limit'')
         then json_error MSG_RATE_LIMIT 429
         else if str_includes message (js ''timeout'')
         then json_error MSG_TIMEOUT 504
         else json_error MSG_GENERIC 500
     | NotAnError \<Rightarrow> json_error MSG_GENERIC 500)"

definition POST :: "engine \<Rightarrow> failure + json \<Rightarrow> jsstring option \<Rightarrow> provider \<Rightarrow> post_run" where
  "POST eng parsed api_key anthropic =
    (case try_block eng parsed api_key anthropic of
       (Inr r, calls) \<Rightarrow> \<lparr>response = r, provider_calls = calls, logged = []\<rparr>
     | (Inl e, calls) \<Rightarrow> \<lparr>response = catch_block e, provider_calls = calls, logged = [e]\<rparr>)"


section \<open>The form controller (src/app/page.tsx)\<close>

subsection \<open>State\<close>

text \<open>
  The values of the page are taken at their declared types. \<open>tone\<close> is one of five
  string literals in the type and a string at run time. The \<open>article\<close> of a response
  is read on the \<open>ok\<close> path only, its \<open>error\<close> on the other path only.
\<close>

record GenerateRequest =
  topic :: jsstring
  keyPoints :: jsstring
  tone :: jsstring

record GenerateResponse =
  article :: jsstring
  error :: "jsstring option"

record page_state =
  formData :: GenerateRequest
  generatedArticle :: jsstring
  isLoading :: bool
  error :: jsstring
  lastGenerated :: int
  copySuccess :: bool
  downloadSuccess :: bool

definition initial_state :: page_state where
  "initial_state =
     \<lparr>formData = \<lparr>topic = [], keyPoints = [], tone = js ''professional''\<rparr>,
      generatedArticle = [], isLoading = False, error = [], lastGenerated = 0,
      copySuccess = False, downloadSuccess = False\<rparr>"

datatype field = Topic | KeyPoints | ToneField

definition handleInputChange :: "field \<Rightarrow> jsstring \<Rightarrow> page_state \<Rightarrow> page_state" where
  "handleInputChange f v s =
     s\<lparr>formData := (case f of
                       Topic \<Rightarrow> (formData s)\<lparr>topic := v\<rparr>
                     | KeyPoints \<Rightarrow> (formData s)\<lparr>keyPoints := v\<rparr>
                     | ToneField \<Rightarrow> (formData s)\<lparr>tone := v\<rparr>),
       error := []\<rparr>"

subsection \<open>validateForm\<close>

definition ERR_ENTER_TOPIC :: jsstring where
  "ERR_ENTER_TOPIC = js ''Please enter a topic''"

definition ERR_TOPIC_LENGTH :: jsstring where
  "ERR_TOPIC_LENGTH = js ''Topic must be 200 characters or less''"

definition ERR_ENTER_KEYPOINT :: jsstring where
  "ERR_ENTER_KEYPOINT = js ''Please enter at least one key point''"

definition ERR_KEYPOINTS_LENGTH :: jsstring where
  "ERR_KEYPOINTS_LENGTH = js ''Key points must be 2000 characters or less''"

definition ERR_PLEASE_WAIT :: jsstring where
  "ERR_PLEASE_WAIT = js ''Please wait a few seconds before generating again''"

definition ERR_RESPONSE_FALLBACK :: jsstring where
  "ERR_RESPONSE_FALLBACK = js ''Failed to generate article''"

definition ERR_UNEXPECTED :: jsstring where
  "ERR_UNEXPECTED = js ''An unexpected error occurred''"

definition ERR_DOWNLOAD :: jsstring where
  "ERR_DOWNLOAD = js ''Failed to download file. Please try again.''"

text \<open>The result is the returned boolean and the state after the \<open>setError\<close> call, if any.\<close>

definition validateForm :: "page_state \<Rightarrow> bool \<times> page_state" where
  "validateForm s =
    (if trim (topic (formData s)) = [] then (False, s\<lparr>error := ERR_ENTER_TOPIC\<rparr>)
     else if length (topic (formData s)) > 200 then (False, s\<lparr>error := ERR_TOPIC_LENGTH\<rparr>)
     else if trim (keyPoints (formData s)) = [] then (False, s\<lparr>error := ERR_ENTER_KEYPOINT\<rparr>)
     else if length (keyPoints (formData s)) > 2000
     then (False, s\<lparr>error := ERR_KEYPOINTS_LENGTH\<rparr>)
     else (True, s))"

subsection \<open>handleSubmit\<close>

text \<open>
  What the browser gives one run of \<open>handleSubmit\<close>: the clock reading at line 72, the
  outcome of \<open>fetch\<close> for the request sent (it rejects, or resolves to a response with
  its \<open>ok\<close> flag, whose \<open>json()\<close> rejects or resolves), and the clock reading at
  line 98.
\<close>

record fetch_response =
  ok :: bool
  json_result :: "failure + GenerateResponse"

record browser =
  now :: int
  fetch :: "GenerateRequest \<Rightarrow> failure + fetch_response"
  now_after :: int

text \<open>Lines 83 to 98: the value thrown inside the \<open>try\<close> block, or the data of a success.\<close>

definition request_article :: "browser \<Rightarrow> GenerateRequest \<Rightarrow> failure + GenerateResponse" where
  "request_article br req =
    (case fetch br req of
       Inl e \<Rightarrow> Inl e
     | Inr resp \<Rightarrow>
        (case json_result resp of
           Inl e \<Rightarrow> Inl e
         | Inr data \<Rightarrow>
            if \<not> ok resp
            then Inl (Error (case GenerateResponse.error data of
                               None \<Rightarrow> ERR_RESPONSE_FALLBACK
                             | Some m \<Rightarrow> if m = [] then ERR_RESPONSE_FALLBACK else m))
            else Inr data))"

text \<open>
  The result is the state once the handler has finished and the requests it sent.
\<close>

definition handleSubmit :: "browser \<Rightarrow> page_state \<Rightarrow> page_state \<times> GenerateRequest list" where
  "handleSubmit br s =
    (case validateForm s of
       (False, s1) \<Rightarrow> (s1, [])
     | (True, s1) \<Rightarrow>
        if now br - lastGenerated s1 < 3000
        then (s1\<lparr>error := ERR_PLEASE_WAIT\<rparr>, [])
        else
          (let s2 = s1\<lparr>isLoading := True, error := [], generatedArticle := []\<rparr>;
               s3 = (case request_article br (formData s) of
                       Inr data \<Rightarrow>
                         s2\<lparr>generatedArticle := article data, lastGenerated := now_after br\<rparr>
                     | Inl (Error message) \<Rightarrow> s2\<lparr>error := message\<rparr>
                     | Inl NotAnError \<Rightarrow> s2\<lparr>error := ERR_UNEXPECTED\<rparr>)
           in (s3\<lparr>isLoading := False\<rparr>, [formData s])))"

subsection \<open>downloadMarkdown\<close>

text \<open>
  \<open>/[^a-z0-9]/gi\<close> has no \<open>u\<close> flag: it tests one code unit at a time, and with \<open>i\<close> a
  code unit is in the class \<open>[a-z0-9]\<close> when its canonical (upper-case) form is that of
  a member, which holds for the ASCII letters and digits only.
\<close>

definition in_class_a_z_0_9_i :: "code_unit \<Rightarrow> bool" where
  "in_class_a_z_0_9_i c \<longleftrightarrow>
     (0x61 \<le> c \<and> c \<le> 0x7A) \<or> (0x41 \<le> c \<and> c \<le> 0x5A) \<or> (0x30 \<le> c \<and> c \<le> 0x39)"

definition replace_non_alnum :: "jsstring \<Rightarrow> jsstring" where
  "replace_non_alnum s = map (\<lambda>c. if in_class_a_z_0_9_i c then c else 0x2D) s"

text \<open>
  \<open>toLowerCase\<close> on ASCII code units. The source applies it to the result of the
  replacement, which holds ASCII letters, digits and hyphens only; on other code units
  (where JavaScript follows the Unicode case tables) this function is the identity and
  is not meant to be used.
\<close>

definition toLowerCase :: "jsstring \<Rightarrow> jsstring" where
  "toLowerCase s = map (\<lambda>c. if 0x41 \<le> c \<and> c \<le> 0x5A then c + 0x20 else c) s"

definition slice0 :: "nat \<Rightarrow> jsstring \<Rightarrow> jsstring" where
  "slice0 n s = take n s"

text \<open>The template literal of line 127.\<close>

definition download_name :: "jsstring \<Rightarrow> jsstring" where
  "download_name t =
     (let d = toLowerCase (replace_non_alnum (slice0 50 t))
      in (if d = [] then js ''article'' else d) @ js ''.md'')"

text \<open>
  The handler saves the article under that name; \<open>dom_ok\<close> tells whether the browser
  calls of lines 123 to 131 went through. The result is the file saved, if any, as name
  and content, and the new state. The timer that clears \<open>downloadSuccess\<close> 2000 ms
  later is a later event and not part of this step.
\<close>

definition downloadMarkdown ::
  "bool \<Rightarrow> page_state \<Rightarrow> (jsstring \<times> jsstring) option \<times> page_state" where
  "downloadMarkdown dom_ok s =
    (if dom_ok
     then (Some (download_name (topic (formData s)), generatedArticle s),
           s\<lparr>downloadSuccess := True\<rparr>)
     else (None, s\<lparr>error := ERR_DOWNLOAD\<rparr>))"

section \<open>The statements of the specification\<close>

subsection \<open>Input checks\<close>

datatype input_check = TopicPresent | TopicLength | KeyPointsPresent | KeyPointsLength | ToneAllowed

fun nonempty_string :: "json option \<Rightarrow> bool" where
  "nonempty_string (Some (JStr s)) = (trim s \<noteq> [])"
| "nonempty_string _ = False"

fun trimmed_length :: "json option \<Rightarrow> nat" where
  "trimmed_length (Some (JStr s)) = length (trim s)"
| "trimmed_length _ = 0"

fun allowed_tone :: "json option \<Rightarrow> bool" where
  "allowed_tone (Some (JStr s)) =
     (s = js ''professional'' \<or> s = js ''casual'' \<or> s = js ''academic'' \<or> s = js ''creative''
      \<or> s = js ''conversational'')"
| "allowed_tone _ = False"

definition first_failed_check :: "json \<Rightarrow> input_check option" where
  "first_failed_check b =
    (if \<not> nonempty_string (property b (js ''topic'')) then Some TopicPresent
     else if \<not> trimmed_length (property b (js ''topic'')) \<le> 200 then Some TopicLength
     else if \<not> nonempty_string (property b (js ''keyPoints'')) then Some KeyPointsPresent
     else if \<not> trimmed_length (property b (js ''keyPoints'')) \<le> 2000 then Some KeyPointsLength
     else if \<not> allowed_tone (property b (js ''tone'')) then Some ToneAllowed
     else None)"

fun check_message :: "input_check \<Rightarrow> jsstring" where
  "check_message TopicPresent = MSG_TOPIC_REQUIRED"
| "check_message TopicLength = MSG_TOPIC_LENGTH"
| "check_message KeyPointsPresent = MSG_KEYPOINTS_REQUIRED"
| "check_message KeyPointsLength = MSG_KEYPOINTS_LENGTH"
| "check_message ToneAllowed = MSG_TONE"

definition accepted :: "json \<Rightarrow> jsstring \<Rightarrow> jsstring \<Rightarrow> jsstring \<Rightarrow> bool" where
  "accepted b t k tn \<longleftrightarrow>
     property b (js ''topic'') = Some (JStr t) \<and> trim t \<noteq> [] \<and> length (trim t) \<le> 200 \<and>
     property b (js ''keyPoints'') = Some (JStr k) \<and> trim k \<noteq> [] \<and> length (trim k) \<le> 2000 \<and>
     property b (js ''tone'') = Some (JStr tn) \<and> allowed_tone (Some (JStr tn))"

definition request_params :: "jsstring \<Rightarrow> jsstring \<Rightarrow> jsstring \<Rightarrow> create_params" where
  "request_params t k tn =
     \<lparr>model = js ''claude-sonnet-4-5-20250929'', max_tokens = 4096, user_content = prompt t k tn\<rparr>"

definition unconfigured :: "jsstring option \<Rightarrow> bool" where
  "unconfigured api_key \<longleftrightarrow> api_key = None \<or> api_key = Some []"

subsection \<open>Failure mapping\<close>

datatype category = InvalidCredential | RateLimited | TimedOut | GenericFailure

definition classify :: "jsstring \<Rightarrow> category" where
  "classify m =
    (if str_includes m (js ''401'') \<or> str_includes m (js ''authentication'') then InvalidCredential
     else if str_includes m (js ''429'') \<or> str_includes m (js ''rate limit'') then RateLimited
     else if str_includes m (js ''timeout'') then TimedOut
     else GenericFailure)"

fun category_response :: "category \<Rightarrow> http_response" where
  "category_response InvalidCredential = \<lparr>status = 500, body = ErrorBody MSG_INVALID_KEY\<rparr>"
| "category_response RateLimited = \<lparr>status = 429, body = ErrorBody MSG_RATE_LIMIT\<rparr>"
| "category_response TimedOut = \<lparr>status = 504, body = ErrorBody MSG_TIMEOUT\<rparr>"
| "category_response GenericFailure = \<lparr>status = 500, body = ErrorBody MSG_GENERIC\<rparr>"

subsection \<open>Content blocks\<close>

fun first_text :: "content_block list \<Rightarrow> jsstring option" where
  "first_text [] = None"
| "first_text (TextBlock t # bs) = Some t"
| "first_text (OtherBlock # bs) = first_text bs"

subsection \<open>Sample inputs\<close>

definition node_engine :: engine where
  "node_engine =
     \<lparr>destructure_null_message = js ''Cannot destructure property 'topic' of 'body' as it is null.'',
      read_of_undefined_message = js ''Cannot read properties of undefined (reading 'type')''\<rparr>"

definition remote_work :: json where
  "remote_work =
     JObj [(js ''topic'', JStr (js ''Remote Work'')),
           (js ''keyPoints'', JStr (js ''productivity, isolation, tooling'')),
           (js ''tone'', JStr (js ''casual''))]"

definition provider_fails :: "jsstring \<Rightarrow> provider" where
  "provider_fails m p = Inl (Error m)"

definition provider_returns :: "content_block list \<Rightarrow> provider" where
  "provider_returns bs p = Inr bs"

definition no_key_points :: json where
  "no_key_points =
     JObj [(js ''topic'', JStr (js ''Remote Work'')), (js ''tone'', JStr (js ''angry''))]"

definition tooling_only :: json where
  "tooling_only =
     JObj [(js ''topic'', JStr (js ''Tooling'')),
           (js ''keyPoints'', JStr (js ''editors'')),
           (js ''tone'', JStr (js ''academic''))]"

subsection \<open>The file name in the words of the specification\<close>

definition slug_unit :: "code_unit \<Rightarrow> code_unit" where
  "slug_unit c =
     (if (0x30 \<le> c \<and> c \<le> 0x39) \<or> (0x61 \<le> c \<and> c \<le> 0x7A) then c
      else if 0x41 \<le> c \<and> c \<le> 0x5A then c + 0x20
      else 0x2D)"

subsection \<open>Sample inputs of the page\<close>

definition filled_form :: page_state where
  "filled_form =
     handleInputChange KeyPoints (js ''productivity, isolation, tooling'')
       (handleInputChange Topic (js ''Remote Work'') initial_state)"

definition fetch_rejects :: "failure \<Rightarrow> GenerateRequest \<Rightarrow> failure + fetch_response" where
  "fetch_rejects e req = Inl e"

definition fetch_answers ::
  "bool \<Rightarrow> GenerateResponse \<Rightarrow> GenerateRequest \<Rightarrow> failure + fetch_response" where
  "fetch_answers is_ok data req = Inr \<lparr>ok = is_ok, json_result = Inr data\<rparr>"

definition article_reply :: GenerateResponse where
  "article_reply = \<lparr>article = js ''# Remote Work'', error = None\<rparr>"

definition rate_limit_reply :: GenerateResponse where
  "rate_limit_reply = \<lparr>article = [], error = Some MSG_RATE_LIMIT\<rparr>"

definition blank_topic :: jsstring where
  "blank_topic = replicate 201 0x20"

definition padded_topic :: jsstring where
  "padded_topic = js ''Remote Work'' @ replicate 190 0x20"

definition padded_request :: json where
  "padded_request =
     JObj [(js ''topic'', JStr padded_topic),
           (js ''keyPoints'', JStr (js ''productivity, isolation, tooling'')),
           (js ''tone'', JStr (js ''casual''))]"

definition first_visit :: browser where
  "first_visit =
     \<lparr>now = 1700000000000, fetch = fetch_answers True article_reply, now_after = 1700000002500\<rparr>"

definition too_soon :: browser where
  "too_soon =
     \<lparr>now = 1700000004000, fetch = fetch_answers True article_reply, now_after = 1700000006000\<rparr>"

definition late_enough :: browser where
  "late_enough =
     \<lparr>now = 1700000005500, fetch = fetch_answers True article_reply, now_after = 1700000007000\<rparr>"

definition offline :: browser where
  "offline =
     \<lparr>now = 1700000000000, fetch = fetch_rejects (Error (js ''Failed to fetch'')),
      now_after = 1700000000010\<rparr>"

definition offline_again :: browser where
  "offline_again =
     \<lparr>now = 1700000000020, fetch = fetch_rejects (Error (js ''Failed to fetch'')),
      now_after = 1700000000030\<rparr>"

definition throttled_by_server :: browser where
  "throttled_by_server =
     \<lparr>now = 1700000000000, fetch = fetch_answers False rate_limit_reply,
      now_after = 1700000002500\<rparr>"

definition generated_once :: page_state where
  "generated_once = fst (handleSubmit first_visit filled_form)"

definition topic_cleared :: page_state where
  "topic_cleared = handleInputChange Topic [] generated_once"

definition reply_unreadable ::
  "bool \<Rightarrow> failure \<Rightarrow> GenerateRequest \<Rightarrow> failure + fetch_response" where
  "reply_unreadable is_ok e req = Inr \<lparr>ok = is_ok, json_result = Inl e\<rparr>"

definition gateway_error_page :: browser where
  "gateway_error_page =
     \<lparr>now = 1700000000000,
      fetch = reply_unreadable False (Error (js ''Unexpected token < in JSON at position 0'')),
      now_after = 1700000002500\<rparr>"

definition bare_reply :: GenerateResponse where
  "bare_reply = \<lparr>article = [], error = None\<rparr>"

definition failure_without_message :: browser where
  "failure_without_message =
     \<lparr>now = 1700000000000, fetch = fetch_answers False bare_reply, now_after = 1700000002500\<rparr>"

section \<open>Properties of the strings\<close>

lemma of_char_less_256: "of_char c < (256::nat)"
proof -
  have "of_char c mod 256 = (of_char c :: nat)" by simp
  then show ?thesis by (metis mod_less_divisor zero_less_numeral)
qed

lemma unat_cu: "unat (cu c) = of_char c"
proof -
  have "(of_char c :: nat) < 2 ^ 16"
    by (rule less_trans [OF of_char_less_256]) simp
  then show ?thesis by (simp add: cu_def unat_of_nat)
qed

lemma cu_eq_iff: "cu a = cu b \<longleftrightarrow> a = b"
proof
  assume "cu a = cu b"
  then have "unat (cu a) = unat (cu b)" by simp
  then show "a = b" by (simp add: unat_cu)
qed simp

lemma js_eq_iff: "js a = js b \<longleftrightarrow> a = b"
  unfolding js_def by (simp add: inj_map_eq_map inj_on_def cu_eq_iff)

lemma js_eq_Nil_iff: "js a = [] \<longleftrightarrow> a = []"
  by (simp add: js_def)

lemma Nil_eq_js_iff: "[] = js a \<longleftrightarrow> a = []"
  by (auto simp: js_def)

lemma trim_Nil: "trim [] = []"
  by (simp add: trim_def)

text \<open>\<open>str_includes\<close> is the substring test, and \<open>trim\<close> strips both ends.\<close>

lemma startsWith_iff: "startsWith s t \<longleftrightarrow> (\<exists>ss. s = t @ ss)"
  by (induction s t rule: startsWith.induct) auto

lemma str_includes_iff: "str_includes s t \<longleftrightarrow> (\<exists>ps ss. s = ps @ t @ ss)"
proof (induction s)
  case Nil
  show ?case by auto
next
  case (Cons x xs)
  have "(\<exists>ps ss. x # xs = ps @ t @ ss) \<longleftrightarrow>
        (\<exists>ss. x # xs = t @ ss) \<or> (\<exists>ps ss. xs = ps @ t @ ss)"
  proof
    assume "\<exists>ps ss. x # xs = ps @ t @ ss"
    then obtain ps ss where e: "x # xs = ps @ t @ ss" by blast
    show "(\<exists>ss. x # xs = t @ ss) \<or> (\<exists>ps ss. xs = ps @ t @ ss)"
    proof (cases ps)
      case Nil
      with e show ?thesis by auto
    next
      case (Cons p ps')
      with e show ?thesis by auto
    qed
  next
    assume "(\<exists>ss. x # xs = t @ ss) \<or> (\<exists>ps ss. xs = ps @ t @ ss)"
    then show "\<exists>ps ss. x # xs = ps @ t @ ss"
    proof
      assume "\<exists>ss. x # xs = t @ ss"
      then obtain ss where "x # xs = [] @ t @ ss" by auto
      then show ?thesis by blast
    next
      assume "\<exists>ps ss. xs = ps @ t @ ss"
      then obtain ps ss where "x # xs = (x # ps) @ t @ ss" by auto
      then show ?thesis by blast
    qed
  qed
  then show ?case by (simp add: Cons.IH startsWith_iff)
qed

lemma trim_eq_Nil_iff: "trim s = [] \<longleftrightarrow> (\<forall>c \<in> set s. isWhiteSpace c)"
proof -
  have "trim s = [] \<longleftrightarrow> (\<forall>c \<in> set (dropWhile isWhiteSpace s). isWhiteSpace c)"
    by (simp add: trim_def dropWhile_eq_Nil_conv)
  also have "\<dots> \<longleftrightarrow> (\<forall>c \<in> set s. isWhiteSpace c)"
  proof
    assume "\<forall>c \<in> set (dropWhile isWhiteSpace s). isWhiteSpace c"
    then have "dropWhile isWhiteSpace s = []"
      by (metis hd_dropWhile hd_in_set)
    then show "\<forall>c \<in> set s. isWhiteSpace c"
      by (simp add: dropWhile_eq_Nil_conv)
  next
    assume "\<forall>c \<in> set s. isWhiteSpace c"
    then show "\<forall>c \<in> set (dropWhile isWhiteSpace s). isWhiteSpace c"
      by (meson set_dropWhileD)
  qed
  finally show ?thesis .
qed

lemma length_trim: "length (trim s) \<le> length s"
proof -
  have "length (dropWhile P xs) \<le> length xs" for P and xs :: jsstring
    by (induction xs) auto
  from this [of isWhiteSpace "rev (dropWhile isWhiteSpace s)"] this [of isWhiteSpace s]
  show ?thesis by (simp add: trim_def)
qed

lemma last_dropWhile: "dropWhile P xs \<noteq> [] \<Longrightarrow> last (dropWhile P xs) = last xs"
  by (induction xs) (auto split: if_splits)

lemma trim_no_edge_space:
  assumes "trim s \<noteq> []"
  shows "\<not> isWhiteSpace (hd (trim s)) \<and> \<not> isWhiteSpace (last (trim s))"
proof -
  let ?d = "dropWhile isWhiteSpace s"
  let ?r = "dropWhile isWhiteSpace (rev ?d)"
  have r: "?r \<noteq> []" using assms by (simp add: trim_def)
  then have l: "\<not> isWhiteSpace (hd ?r)" by (rule hd_dropWhile)
  have d: "?d \<noteq> []"
  proof
    assume e: "?d = []"
    have "?r = []" unfolding e by simp
    with r show False by blast
  qed
  then have h: "\<not> isWhiteSpace (hd ?d)" by (rule hd_dropWhile)
  have "last ?r = last (rev ?d)" using r by (rule last_dropWhile)
  also have "\<dots> = hd ?d" using d by (simp add: last_rev)
  finally have "hd (trim s) = hd ?d" using r by (simp add: trim_def hd_rev)
  moreover have "last (trim s) = hd ?r" using r by (simp add: trim_def last_rev)
  ultimately show ?thesis using h l by simp
qed

section \<open>Properties of the endpoint\<close>

lemma messages_distinct:
  "distinct [MSG_TOPIC_REQUIRED, MSG_TOPIC_LENGTH, MSG_KEYPOINTS_REQUIRED, MSG_KEYPOINTS_LENGTH,
             MSG_TONE, MSG_NOT_CONFIGURED, MSG_INVALID_KEY, MSG_RATE_LIMIT, MSG_TIMEOUT,
             MSG_GENERIC]"
  by (simp add: MSG_TOPIC_REQUIRED_def MSG_TOPIC_LENGTH_def MSG_KEYPOINTS_REQUIRED_def
      MSG_KEYPOINTS_LENGTH_def MSG_TONE_def MSG_NOT_CONFIGURED_def MSG_INVALID_KEY_def
      MSG_RATE_LIMIT_def MSG_TIMEOUT_def MSG_GENERIC_def js_eq_iff)

lemma presence_check:
  "(\<not> truthy v \<or> \<not> typeof_string v \<or> length (trim (string_of v)) = 0) \<longleftrightarrow> \<not> nonempty_string v"
proof (cases v)
  case None then show ?thesis by simp
next
  case (Some j) then show ?thesis by (cases j) (auto simp: trim_Nil)
qed

lemma length_check:
  "nonempty_string v \<Longrightarrow> length (trim (string_of v)) = trimmed_length v"
proof (cases v)
  case None then show "nonempty_string v \<Longrightarrow> ?thesis" by simp
next
  case (Some j) then show "nonempty_string v \<Longrightarrow> ?thesis" by (cases j) auto
qed

lemma tone_check:
  "(\<not> truthy v \<or> \<not> array_includes TONES v) \<longleftrightarrow> \<not> allowed_tone v"
proof (cases v)
  case None then show ?thesis by simp
next
  case (Some j) then show ?thesis
    by (cases j) (auto simp: TONES_def js_eq_Nil_iff Nil_eq_js_iff)
qed

lemma try_block_body:
  assumes "b \<noteq> JNull"
  shows "try_block eng (Inr b) api_key anthropic =
    (case first_failed_check b of
       Some c \<Rightarrow> (Inr (json_error (check_message c) 400), [])
     | None \<Rightarrow>
        if unconfigured api_key then (Inr (json_error MSG_NOT_CONFIGURED 500), [])
        else
          (let params = request_params (string_of (property b (js ''topic'')))
                          (string_of (property b (js ''keyPoints'')))
                          (string_of (property b (js ''tone'')))
           in case anthropic params of
                Inl e \<Rightarrow> (Inl e, [params])
              | Inr [] \<Rightarrow> (Inl (Error (read_of_undefined_message eng)), [params])
              | Inr (TextBlock t # rest) \<Rightarrow> (Inr \<lparr>status = 200, body = ArticleBody t\<rparr>, [params])
              | Inr (OtherBlock # rest) \<Rightarrow>
                  (Inr \<lparr>status = 200, body = ArticleBody ARTICLE_FALLBACK\<rparr>, [params])))"
  (is "_ = ?rhs")
proof -
  have u: "(case api_key of None \<Rightarrow> True | Some k \<Rightarrow> k = []) = unconfigured api_key"
    by (cases api_key) (auto simp: unconfigured_def)
  have "try_block eng (Inr b) api_key anthropic =
        (let topic_v = property b (js ''topic'');
             keyPoints_v = property b (js ''keyPoints'');
             tone_v = property b (js ''tone'')
         in
           if \<not> truthy topic_v \<or> \<not> typeof_string topic_v
              \<or> length (trim (string_of topic_v)) = 0
           then (Inr (json_error MSG_TOPIC_REQUIRED 400), [])
           else if length (trim (string_of topic_v)) > 200
           then (Inr (json_error MSG_TOPIC_LENGTH 400), [])
           else if \<not> truthy keyPoints_v \<or> \<not> typeof_string keyPoints_v
              \<or> length (trim (string_of keyPoints_v)) = 0
           then (Inr (json_error MSG_KEYPOINTS_REQUIRED 400), [])
           else if length (trim (string_of keyPoints_v)) > 2000
           then (Inr (json_error MSG_KEYPOINTS_LENGTH 400), [])
           else if \<not> truthy tone_v \<or> \<not> array_includes TONES tone_v
           then (Inr (json_error MSG_TONE 400), [])
           else if (case api_key of None \<Rightarrow> True | Some k \<Rightarrow> k = [])
           then (Inr (json_error MSG_NOT_CONFIGURED 500), [])
           else
             (let params = \<lparr>model = js ''claude-sonnet-4-5-20250929'', max_tokens = 4096,
                            user_content = prompt (string_of topic_v) (string_of keyPoints_v)
                                             (string_of tone_v)\<rparr>
              in case anthropic params of
                   Inl e \<Rightarrow> (Inl e, [params])
                 | Inr [] \<Rightarrow> (Inl (Error (read_of_undefined_message eng)), [params])
                 | Inr (TextBlock t # rest) \<Rightarrow>
                     (Inr \<lparr>status = 200, body = ArticleBody t\<rparr>, [params])
                 | Inr (OtherBlock # rest) \<Rightarrow>
                     (Inr \<lparr>status = 200, body = ArticleBody ARTICLE_FALLBACK\<rparr>, [params])))"
    using assms unfolding try_block_def by (cases b) simp_all
  also have "\<dots> = ?rhs"
    unfolding Let_def presence_check tone_check u first_failed_check_def request_params_def
    by (auto simp: length_check)
  finally show ?thesis .
qed


lemma catch_block_classify: "catch_block (Error m) = category_response (classify m)"
  by (simp add: catch_block_def classify_def json_error_def)

lemma catch_block_status: "status (catch_block e) \<in> {500, 429, 504}"
  by (cases e) (simp_all add: catch_block_def json_error_def)

lemma accepted_passes: "accepted b t k tn \<Longrightarrow> b \<noteq> JNull \<and> first_failed_check b = None"
  by (auto simp: accepted_def first_failed_check_def)

lemma POST_rejected:
  assumes "b \<noteq> JNull" "first_failed_check b = Some c"
  shows "POST eng (Inr b) api_key anthropic =
         \<lparr>response = \<lparr>status = 400, body = ErrorBody (check_message c)\<rparr>,
          provider_calls = [], logged = []\<rparr>"
  using assms by (simp add: POST_def try_block_body json_error_def)

lemma POST_passed_status:
  assumes "b \<noteq> JNull" "first_failed_check b = None"
  shows "status (response (POST eng (Inr b) api_key anthropic)) \<noteq> 400"
proof -
  have "status (catch_block e) \<noteq> 400" for e
    using catch_block_status [of e] by auto
  then show ?thesis
    using assms
    by (auto simp: POST_def try_block_body json_error_def Let_def
        split: sum.splits list.splits content_block.splits)
qed

lemma POST_unconfigured:
  assumes "accepted b t k tn" "unconfigured api_key"
  shows "POST eng (Inr b) api_key anthropic =
         \<lparr>response = \<lparr>status = 500, body = ErrorBody MSG_NOT_CONFIGURED\<rparr>,
          provider_calls = [], logged = []\<rparr>"
  using assms accepted_passes [OF assms(1)]
  by (simp add: POST_def try_block_body json_error_def)

lemma POST_accepted:
  assumes "accepted b t k tn" "\<not> unconfigured api_key"
  shows "POST eng (Inr b) api_key anthropic =
         (case anthropic (request_params t k tn) of
            Inl e \<Rightarrow> \<lparr>response = catch_block e, provider_calls = [request_params t k tn],
                       logged = [e]\<rparr>
          | Inr [] \<Rightarrow>
              \<lparr>response = catch_block (Error (read_of_undefined_message eng)),
               provider_calls = [request_params t k tn],
               logged = [Error (read_of_undefined_message eng)]\<rparr>
          | Inr (blk # rest) \<Rightarrow>
              \<lparr>response = \<lparr>status = 200,
                            body = ArticleBody (case blk of TextBlock a \<Rightarrow> a
                                                 | OtherBlock \<Rightarrow> ARTICLE_FALLBACK)\<rparr>,
               provider_calls = [request_params t k tn], logged = []\<rparr>)"
proof -
  have p: "string_of (property b (js ''topic'')) = t"
          "string_of (property b (js ''keyPoints'')) = k"
          "string_of (property b (js ''tone'')) = tn"
    using assms(1) by (simp_all add: accepted_def)
  show ?thesis
    using assms(2) accepted_passes [OF assms(1)]
    by (simp add: POST_def try_block_body p Let_def
        split: sum.splits list.splits content_block.splits)
qed

lemma accepted_remote_work:
  "accepted remote_work (js ''Remote Work'') (js ''productivity, isolation, tooling'') (js ''casual'')"
  by code_simp

lemma accepted_tooling_only:
  "accepted tooling_only (js ''Tooling'') (js ''editors'') (js ''academic'')"
  by code_simp

lemma configured_sample: "\<not> unconfigured (Some (js ''sk-test''))"
  by (simp add: unconfigured_def js_eq_Nil_iff)

section \<open>The input checks of the endpoint\<close>

text \<open>
  The order of the checks. For every request body that parses to a JSON value other
  than \<open>null\<close>, the checks run in the order topic present (a string, non-empty after
  trimming), trimmed topic length at most 200, keyPoints present, trimmed keyPoints
  length at most 2000, tone one of the five values. The first check that fails decides
  the answer: status 400 with the message of that check, no call to the provider and
  nothing logged. When no check fails the status is not 400. The five messages are
  pairwise distinct.
\<close>

theorem validation_order:
  assumes "b \<noteq> JNull"
  shows "(case first_failed_check b of
            Some c \<Rightarrow>
              POST eng (Inr b) api_key anthropic =
                \<lparr>response = \<lparr>status = 400, body = ErrorBody (check_message c)\<rparr>,
                 provider_calls = [], logged = []\<rparr>
          | None \<Rightarrow> status (response (POST eng (Inr b) api_key anthropic)) \<noteq> 400)
         \<and> distinct (map check_message
                      [TopicPresent, TopicLength, KeyPointsPresent, KeyPointsLength, ToneAllowed])"
proof -
  have d: "distinct (map check_message
                      [TopicPresent, TopicLength, KeyPointsPresent, KeyPointsLength, ToneAllowed])"
    using messages_distinct by simp
  show ?thesis
  proof (cases "first_failed_check b")
    case None
    with POST_passed_status [OF assms None] d show ?thesis by simp
  next
    case (Some c)
    with POST_rejected [OF assms Some] d show ?thesis by simp
  qed
qed

text \<open>
  A body with a topic, no keyPoints and a tone outside the list: the keyPoints check is
  the first to fail, and its message is the one returned, not the tone's.
\<close>

theorem validation_order_witness:
  "no_key_points \<noteq> JNull \<and>
   POST node_engine (Inr no_key_points) None (provider_returns []) =
     \<lparr>response = \<lparr>status = 400, body = ErrorBody MSG_KEYPOINTS_REQUIRED\<rparr>,
      provider_calls = [], logged = []\<rparr>"
proof -
  have n: "no_key_points \<noteq> JNull" by (simp add: no_key_points_def)
  have f: "first_failed_check no_key_points = Some KeyPointsPresent" by code_simp
  show ?thesis
    using n validation_order [OF n, of node_engine None "provider_returns []"] by (simp add: f)
qed

text \<open>
  Claim C1. For every request body, the input checks run in the order topic present,
  trimmed topic length at most 200, keyPoints present, trimmed keyPoints length at most
  2000, tone one of the five values; the first check that fails answers 400 with its own
  message, and the provider is not called. The handler departs from this at one body.
  \<open>null\<close> is valid JSON and has no topic, as \<open>{}\<close>, \<open>[]\<close> and \<open>5\<close> have none. Those
  three reach the test of line 31 and are answered 400 with "Topic is required and must
  be a non-empty string"; for \<open>null\<close> the destructuring of line 28 throws before that
  test, and the \<open>catch\<close> block answers 500 with the generic message.
\<close>

theorem null_body_answered_500:
  "first_failed_check JNull = Some TopicPresent
   \<and> POST node_engine (Inr JNull) (Some (js ''sk-test''))
        (provider_returns [TextBlock (js ''# Remote Work'')]) =
       \<lparr>response = \<lparr>status = 500, body = ErrorBody MSG_GENERIC\<rparr>, provider_calls = [],
        logged = [Error (destructure_null_message node_engine)]\<rparr>
   \<and> first_failed_check (JObj []) = Some TopicPresent
   \<and> response (POST node_engine (Inr (JObj [])) (Some (js ''sk-test''))
        (provider_returns [TextBlock (js ''# Remote Work'')])) =
       \<lparr>status = 400, body = ErrorBody MSG_TOPIC_REQUIRED\<rparr>
   \<and> response (POST node_engine (Inr (JArr [])) (Some (js ''sk-test''))
        (provider_returns [TextBlock (js ''# Remote Work'')])) =
       \<lparr>status = 400, body = ErrorBody MSG_TOPIC_REQUIRED\<rparr>
   \<and> response (POST node_engine (Inr (JNum (Finite 5))) (Some (js ''sk-test''))
        (provider_returns [TextBlock (js ''# Remote Work'')])) =
       \<lparr>status = 400, body = ErrorBody MSG_TOPIC_REQUIRED\<rparr>"
  by code_simp

section \<open>The mapping of provider failures\<close>

text \<open>
  Claim C2. When the request passes the five checks, a credential is configured and the
  provider call fails with an \<open>Error\<close> whose message is \<open>m\<close>, the endpoint answers
  with the first matching row of the table, in the order: \<open>m\<close> contains "401" or
  "authentication", invalid-credential message and status 500; else \<open>m\<close> contains
  "429" or "rate limit", rate-limit message and status 429; else \<open>m\<close> contains
  "timeout", timeout message and status 504; else the generic message and status 500.
  The provider was called once and the failure was logged. The answer is a function of
  the message alone: a second request, with another body, credential, engine and
  provider, gets the same answer when its provider fails with the same message.
\<close>

theorem provider_failure_mapping:
  assumes "accepted b t k tn" "\<not> unconfigured api_key"
    and "anthropic (request_params t k tn) = Inl (Error m)"
    and "accepted b' t' k' tn'" "\<not> unconfigured api_key'"
    and "anthropic' (request_params t' k' tn') = Inl (Error m)"
  shows "POST eng (Inr b) api_key anthropic =
           \<lparr>response = category_response (classify m),
            provider_calls = [request_params t k tn], logged = [Error m]\<rparr>
         \<and> response (POST eng' (Inr b') api_key' anthropic') =
             response (POST eng (Inr b) api_key anthropic)"
  using POST_accepted [OF assms(1,2), of eng anthropic]
        POST_accepted [OF assms(4,5), of eng' anthropic'] assms(3,6)
  by (simp add: catch_block_classify)

text \<open>
  The scenario of the specification: the provider fails with "rate limit exceeded" and
  the answer is 429 with the rate-limit message, for two different requests.
\<close>

theorem provider_failure_mapping_witness:
  "POST node_engine (Inr remote_work) (Some (js ''sk-test''))
       (provider_fails (js ''rate limit exceeded'')) =
     \<lparr>response = \<lparr>status = 429, body = ErrorBody MSG_RATE_LIMIT\<rparr>,
      provider_calls = [request_params (js ''Remote Work'')
                          (js ''productivity, isolation, tooling'') (js ''casual'')],
      logged = [Error (js ''rate limit exceeded'')]\<rparr>
   \<and> response (POST node_engine (Inr tooling_only) (Some (js ''sk-test''))
         (provider_fails (js ''rate limit exceeded''))) =
       response (POST node_engine (Inr remote_work) (Some (js ''sk-test''))
         (provider_fails (js ''rate limit exceeded'')))"
proof -
  have c: "classify (js ''rate limit exceeded'') = RateLimited" by code_simp
  show ?thesis
    using provider_failure_mapping [OF accepted_remote_work configured_sample _
        accepted_tooling_only configured_sample,
        of "provider_fails (js ''rate limit exceeded'')" "js ''rate limit exceeded''"
           "provider_fails (js ''rate limit exceeded'')" node_engine node_engine]
    by (simp add: provider_fails_def c)
qed

text \<open>
  Claim C3, amended. For every provider failure whose message contains "429" and
  contains neither "401" nor "authentication", the endpoint answers 429 with the
  rate-limit message, whether or not "rate limit" or "timeout" also occur in it.
\<close>

theorem rate_limit_without_credential_words:
  assumes "accepted b t k tn" "\<not> unconfigured api_key"
    and "anthropic (request_params t k tn) = Inl (Error m)"
    and "str_includes m (js ''429'')"
    and "\<not> str_includes m (js ''401'')" "\<not> str_includes m (js ''authentication'')"
  shows "response (POST eng (Inr b) api_key anthropic) =
           \<lparr>status = 429, body = ErrorBody MSG_RATE_LIMIT\<rparr>"
  using POST_accepted [OF assms(1,2), of eng anthropic] assms(3-)
  by (simp add: catch_block_def json_error_def)

text \<open>A message with both "429" and "timeout" is answered as rate limited, not as 504.\<close>

theorem rate_limit_without_credential_words_witness:
  "str_includes (js ''429 upstream timeout'') (js ''timeout'') \<and>
   response (POST node_engine (Inr remote_work) (Some (js ''sk-test''))
       (provider_fails (js ''429 upstream timeout''))) =
     \<lparr>status = 429, body = ErrorBody MSG_RATE_LIMIT\<rparr>"
proof -
  have i: "str_includes (js ''429 upstream timeout'') (js ''429'')"
          "\<not> str_includes (js ''429 upstream timeout'') (js ''401'')"
          "\<not> str_includes (js ''429 upstream timeout'') (js ''authentication'')"
          "str_includes (js ''429 upstream timeout'') (js ''timeout'')"
    by code_simp+
  show ?thesis
    using rate_limit_without_credential_words [OF accepted_remote_work configured_sample _ i(1-3),
        of "provider_fails (js ''429 upstream timeout'')" node_engine]
    by (simp add: provider_fails_def i(4))
qed

text \<open>
  C3 as stated lets any other substring be present. The test for "401" and
  "authentication" comes first in the \<open>catch\<close> block (line 123), so a message with
  "429" and "authentication" is answered 500 with the invalid-credential message.
\<close>

theorem authentication_before_429_counterexample:
  "str_includes (js ''429 authentication backend overloaded'') (js ''429'') \<and>
   response (POST node_engine (Inr remote_work) (Some (js ''sk-test''))
       (provider_fails (js ''429 authentication backend overloaded''))) =
     \<lparr>status = 500, body = ErrorBody MSG_INVALID_KEY\<rparr>"
  by code_simp

section \<open>The credential check\<close>

text \<open>
  The place of the credential check. For every request that passes the five input
  checks, when \<open>ANTHROPIC_API_KEY\<close> is unset or empty the endpoint answers 500 with the
  "not configured" message and the provider is not called. The credential is looked at
  after the input: a body other than \<open>null\<close> that fails a check is answered 400 with
  that check's message also when the credential is missing. The "not configured"
  message differs from every other message of the endpoint.
\<close>

theorem credential_check_after_validation:
  "(accepted b t k tn \<and> unconfigured api_key \<longrightarrow>
      POST eng (Inr b) api_key anthropic =
        \<lparr>response = \<lparr>status = 500, body = ErrorBody MSG_NOT_CONFIGURED\<rparr>,
         provider_calls = [], logged = []\<rparr>)
   \<and> (b' \<noteq> JNull \<and> first_failed_check b' = Some c \<and> unconfigured api_key \<longrightarrow>
      POST eng (Inr b') api_key anthropic =
        \<lparr>response = \<lparr>status = 400, body = ErrorBody (check_message c)\<rparr>,
         provider_calls = [], logged = []\<rparr>)
   \<and> MSG_NOT_CONFIGURED \<notin> set [MSG_TOPIC_REQUIRED, MSG_TOPIC_LENGTH, MSG_KEYPOINTS_REQUIRED,
        MSG_KEYPOINTS_LENGTH, MSG_TONE, MSG_INVALID_KEY, MSG_RATE_LIMIT, MSG_TIMEOUT, MSG_GENERIC]"
proof (intro conjI impI)
  assume "accepted b t k tn \<and> unconfigured api_key"
  then show "POST eng (Inr b) api_key anthropic =
        \<lparr>response = \<lparr>status = 500, body = ErrorBody MSG_NOT_CONFIGURED\<rparr>,
         provider_calls = [], logged = []\<rparr>"
    using POST_unconfigured by blast
next
  assume "b' \<noteq> JNull \<and> first_failed_check b' = Some c \<and> unconfigured api_key"
  then show "POST eng (Inr b') api_key anthropic =
        \<lparr>response = \<lparr>status = 400, body = ErrorBody (check_message c)\<rparr>,
         provider_calls = [], logged = []\<rparr>"
    using POST_rejected by blast
next
  show "MSG_NOT_CONFIGURED \<notin> set [MSG_TOPIC_REQUIRED, MSG_TOPIC_LENGTH, MSG_KEYPOINTS_REQUIRED,
        MSG_KEYPOINTS_LENGTH, MSG_TONE, MSG_INVALID_KEY, MSG_RATE_LIMIT, MSG_TIMEOUT, MSG_GENERIC]"
    using messages_distinct by auto
qed

text \<open>
  With no credential, a valid request gets the configuration answer and a request
  without keyPoints gets the 400 of that check.
\<close>

theorem credential_check_after_validation_witness:
  "POST node_engine (Inr remote_work) None (provider_returns [TextBlock (js ''# Remote Work'')]) =
     \<lparr>response = \<lparr>status = 500, body = ErrorBody MSG_NOT_CONFIGURED\<rparr>,
      provider_calls = [], logged = []\<rparr>
   \<and> POST node_engine (Inr no_key_points) None
        (provider_returns [TextBlock (js ''# Remote Work'')]) =
     \<lparr>response = \<lparr>status = 400, body = ErrorBody MSG_KEYPOINTS_REQUIRED\<rparr>,
      provider_calls = [], logged = []\<rparr>"
proof -
  have n: "no_key_points \<noteq> JNull" by (simp add: no_key_points_def)
  have f: "first_failed_check no_key_points = Some KeyPointsPresent" by code_simp
  have u: "unconfigured None" by (simp add: unconfigured_def)
  show ?thesis
    using credential_check_after_validation [of remote_work "js ''Remote Work''"
        "js ''productivity, isolation, tooling''" "js ''casual''" None node_engine
        "provider_returns [TextBlock (js ''# Remote Work'')]" no_key_points KeyPointsPresent]
      accepted_remote_work n f u
    by simp
qed

text \<open>
  Claim C4. For every request that passes the five input checks, a missing credential
  is answered 500 with the "not configured" message and the provider is never called;
  the credential is checked after the input, so invalid input is answered 400 also
  when the credential is missing. The handler departs from the last part at the body
  \<open>null\<close>, by the same throw at line 28: with no credential, \<open>null\<close> is answered 500
  with the generic message, where the body \<open>{}\<close> is answered 400.
\<close>

theorem null_body_without_credential:
  "first_failed_check JNull = Some TopicPresent
   \<and> unconfigured None
   \<and> POST node_engine (Inr JNull) None (provider_returns []) =
       \<lparr>response = \<lparr>status = 500, body = ErrorBody MSG_GENERIC\<rparr>, provider_calls = [],
        logged = [Error (destructure_null_message node_engine)]\<rparr>
   \<and> response (POST node_engine (Inr (JObj [])) None (provider_returns [])) =
       \<lparr>status = 400, body = ErrorBody MSG_TOPIC_REQUIRED\<rparr>"
  by code_simp

section \<open>The article of a successful response\<close>

text \<open>
  Claim C5, amended. For every successful provider response with at least one content
  block, the endpoint answers 200; the article is the text of the first content block
  when that block is text-typed, and the literal "Failed to generate article content"
  when the first block is not text-typed (whatever the later blocks are).
\<close>

theorem first_block_decides_article:
  assumes "accepted b t k tn" "\<not> unconfigured api_key"
    and "anthropic (request_params t k tn) = Inr (blk # rest)"
  shows "POST eng (Inr b) api_key anthropic =
           \<lparr>response =
              \<lparr>status = 200,
               body = ArticleBody (case blk of TextBlock a \<Rightarrow> a | OtherBlock \<Rightarrow> ARTICLE_FALLBACK)\<rparr>,
            provider_calls = [request_params t k tn], logged = []\<rparr>"
  using POST_accepted [OF assms(1,2), of eng anthropic] assms(3) by simp

text \<open>A text block first gives its text; a lone block of another type gives the fallback.\<close>

theorem first_block_decides_article_witness:
  "response (POST node_engine (Inr remote_work) (Some (js ''sk-test''))
       (provider_returns [TextBlock (js ''# Remote Work''), OtherBlock])) =
     \<lparr>status = 200, body = ArticleBody (js ''# Remote Work'')\<rparr>
   \<and> response (POST node_engine (Inr remote_work) (Some (js ''sk-test''))
       (provider_returns [OtherBlock])) =
     \<lparr>status = 200, body = ArticleBody ARTICLE_FALLBACK\<rparr>"
  using first_block_decides_article [OF accepted_remote_work configured_sample,
      of "provider_returns [TextBlock (js ''# Remote Work''), OtherBlock]"
         "TextBlock (js ''# Remote Work'')" "[OtherBlock]" node_engine]
    first_block_decides_article [OF accepted_remote_work configured_sample,
      of "provider_returns [OtherBlock]" OtherBlock "[]" node_engine]
  by (simp add: provider_returns_def)

text \<open>
  C5 as stated takes the first text-typed block of the response. Lines 108 to 110 look
  at \<open>content[0]\<close> only: a response whose text block comes second gets the fallback
  literal, although it has a text block.
\<close>

theorem later_text_block_counterexample:
  "first_text [OtherBlock, TextBlock (js ''# Remote Work'')] = Some (js ''# Remote Work'') \<and>
   response (POST node_engine (Inr remote_work) (Some (js ''sk-test''))
       (provider_returns [OtherBlock, TextBlock (js ''# Remote Work'')])) =
     \<lparr>status = 200, body = ArticleBody ARTICLE_FALLBACK\<rparr> \<and>
   ARTICLE_FALLBACK \<noteq> js ''# Remote Work''"
  by code_simp

section \<open>A body that is not JSON\<close>

text \<open>
  Claim C9. When \<open>request.json()\<close> throws, the failure goes to the same \<open>catch\<close>
  block as a provider failure: the provider is not called, the status is never 400, and
  when the failure is an \<open>Error\<close> whose message contains none of "401",
  "authentication", "429", "rate limit" and "timeout" the answer is the generic message
  with status 500.
\<close>

theorem invalid_json_is_not_400:
  "POST eng (Inl e) api_key anthropic =
     \<lparr>response = catch_block e, provider_calls = [], logged = [e]\<rparr>
   \<and> status (catch_block e) \<noteq> 400
   \<and> (\<not> str_includes m (js ''401'') \<and> \<not> str_includes m (js ''authentication'') \<and>
      \<not> str_includes m (js ''429'') \<and> \<not> str_includes m (js ''rate limit'') \<and>
      \<not> str_includes m (js ''timeout'') \<longrightarrow>
      POST eng (Inl (Error m)) api_key anthropic =
        \<lparr>response = \<lparr>status = 500, body = ErrorBody MSG_GENERIC\<rparr>,
         provider_calls = [], logged = [Error m]\<rparr>)"
proof -
  have "status (catch_block e) \<noteq> 400"
    using catch_block_status [of e] by auto
  then show ?thesis
    by (simp add: POST_def try_block_def catch_block_def json_error_def)
qed

text \<open>The parse error of an empty body.\<close>

theorem invalid_json_is_not_400_witness:
  "POST node_engine (Inl (Error (js ''Unexpected end of JSON input''))) (Some (js ''sk-test''))
       (provider_returns [TextBlock (js ''# Remote Work'')]) =
     \<lparr>response = \<lparr>status = 500, body = ErrorBody MSG_GENERIC\<rparr>,
      provider_calls = [], logged = [Error (js ''Unexpected end of JSON input'')]\<rparr>"
proof -
  have i: "\<not> str_includes (js ''Unexpected end of JSON input'') (js ''401'')"
          "\<not> str_includes (js ''Unexpected end of JSON input'') (js ''authentication'')"
          "\<not> str_includes (js ''Unexpected end of JSON input'') (js ''429'')"
          "\<not> str_includes (js ''Unexpected end of JSON input'') (js ''rate limit'')"
          "\<not> str_includes (js ''Unexpected end of JSON input'') (js ''timeout'')"
    by code_simp+
  show ?thesis
    using invalid_json_is_not_400 [of node_engine "Error (js ''Unexpected end of JSON input'')"
        "Some (js ''sk-test'')" "provider_returns [TextBlock (js ''# Remote Work'')]"
        "js ''Unexpected end of JSON input''"] i
    by blast
qed

section \<open>The name of the downloaded file\<close>

lemma slug_unit_eq:
  "(if 0x41 \<le> (if in_class_a_z_0_9_i c then c else 0x2D)
        \<and> (if in_class_a_z_0_9_i c then c else 0x2D) \<le> 0x5A
    then (if in_class_a_z_0_9_i c then c else 0x2D) + 0x20
    else (if in_class_a_z_0_9_i c then c else 0x2D)) = slug_unit c"
  unfolding in_class_a_z_0_9_i_def slug_unit_def word_le_nat_alt
  by (simp split: if_splits)

lemma download_name_slug:
  "download_name t = (if t = [] then js ''article'' else map slug_unit (take 50 t)) @ js ''.md''"
  by (simp add: download_name_def toLowerCase_def replace_non_alnum_def slice0_def o_def slug_unit_eq)

text \<open>The argument of \<open>toLowerCase\<close> at line 127 holds ASCII code units only.\<close>

lemma replace_non_alnum_ascii:
  "c \<in> set (replace_non_alnum s) \<Longrightarrow> c < 0x80"
  unfolding replace_non_alnum_def in_class_a_z_0_9_i_def word_le_nat_alt word_less_nat_alt
  by (auto split: if_splits)

lemma slug_unit_symbol: "\<not> in_class_a_z_0_9_i c \<Longrightarrow> slug_unit c = 0x2D"
  unfolding in_class_a_z_0_9_i_def slug_unit_def by auto

text \<open>
  Claim C6, amended. For every topic, the file name is made from the first 50 code units
  of the topic: a digit or a lower-case ASCII letter is kept, an upper-case ASCII letter
  is lower-cased, every other code unit becomes a hyphen; the literal "article" stands
  in when the derived name is empty, which is the case for the empty topic only; ".md"
  is appended. The topic "AI Ethics & Society!" gives "ai-ethics---society-.md", the
  empty topic gives "article.md", and a non-empty topic made of symbols only gives one
  hyphen for each of its first 50 code units, followed by ".md".
\<close>

theorem download_name_derivation:
  "download_name t = (if t = [] then js ''article'' else map slug_unit (take 50 t)) @ js ''.md''
   \<and> download_name (js ''AI Ethics & Society!'') = js ''ai-ethics---society-.md''
   \<and> download_name [] = js ''article.md''
   \<and> (t \<noteq> [] \<and> (\<forall>c \<in> set t. \<not> in_class_a_z_0_9_i c) \<longrightarrow>
        download_name t = replicate (min 50 (length t)) 0x2D @ js ''.md'')"
proof (intro conjI impI)
  show "download_name t = (if t = [] then js ''article'' else map slug_unit (take 50 t)) @ js ''.md''"
    by (rule download_name_slug)
  show "download_name (js ''AI Ethics & Society!'') = js ''ai-ethics---society-.md''"
    by code_simp
  show "download_name [] = js ''article.md''"
    by code_simp
next
  assume a: "t \<noteq> [] \<and> (\<forall>c \<in> set t. \<not> in_class_a_z_0_9_i c)"
  then have "\<forall>c \<in> set (take 50 t). slug_unit c = 0x2D"
    by (auto simp: slug_unit_symbol dest: in_set_takeD)
  then have "map slug_unit (take 50 t) = replicate (length (take 50 t)) 0x2D"
    by (simp add: map_replicate_const cong: map_cong)
  with a show "download_name t = replicate (min 50 (length t)) 0x2D @ js ''.md''"
    by (simp add: download_name_slug min.commute)
qed

text \<open>A topic of two symbols gives two hyphens.\<close>

theorem download_name_derivation_witness:
  "download_name (js ''?!'') = js ''--.md''"
proof -
  have "js ''?!'' \<noteq> [] \<and> (\<forall>c \<in> set (js ''?!''). \<not> in_class_a_z_0_9_i c)"
    by code_simp
  with download_name_derivation [of "js ''?!''"]
  have "download_name (js ''?!'') = replicate (min 50 (length (js ''?!''))) 0x2D @ js ''.md''"
    by blast
  also have "\<dots> = js ''--.md''" by code_simp
  finally show ?thesis .
qed

text \<open>
  C6 as stated sends an all-symbol topic to "article.md". The default of line 127 is
  taken only when the derived name is the empty string, and three symbols derive three
  hyphens.
\<close>

theorem all_symbol_topic_counterexample:
  "download_name (js ''!!!'') = js ''---.md'' \<and> download_name (js ''!!!'') \<noteq> js ''article.md''"
  by code_simp

section \<open>Properties of the page\<close>

lemma validateForm_formData: "formData (snd (validateForm s)) = formData s"
  by (simp add: validateForm_def)

lemma validateForm_passes: "fst (validateForm s) \<Longrightarrow> validateForm s = (True, s)"
  by (auto simp: validateForm_def split: if_splits)

lemma validateForm_depends_on_formData:
  "formData s' = formData s \<Longrightarrow> fst (validateForm s') = fst (validateForm s)"
  by (simp add: validateForm_def)

lemma handleSubmit_rejected:
  "\<not> fst (validateForm s) \<Longrightarrow> handleSubmit br s = (snd (validateForm s), [])"
  by (cases "validateForm s") (auto simp: handleSubmit_def)

lemma handleSubmit_cooldown:
  "fst (validateForm s) \<Longrightarrow> now br - lastGenerated s < 3000 \<Longrightarrow>
   handleSubmit br s = (s\<lparr>error := ERR_PLEASE_WAIT\<rparr>, [])"
  by (simp add: handleSubmit_def validateForm_passes)

lemma handleSubmit_sends:
  assumes "fst (validateForm s)" "3000 \<le> now br - lastGenerated s"
  shows "handleSubmit br s =
    ((case request_article br (formData s) of
        Inr data \<Rightarrow> s\<lparr>isLoading := False, error := [], generatedArticle := article data,
                       lastGenerated := now_after br\<rparr>
      | Inl (Error message) \<Rightarrow> s\<lparr>isLoading := False, error := message, generatedArticle := []\<rparr>
      | Inl NotAnError \<Rightarrow> s\<lparr>isLoading := False, error := ERR_UNEXPECTED, generatedArticle := []\<rparr>),
     [formData s])"
  using assms
  by (simp add: handleSubmit_def validateForm_passes Let_def
      split: sum.splits failure.splits)

lemma filled_form_valid: "fst (validateForm filled_form)"
  by code_simp

lemma generated_once_valid: "fst (validateForm generated_once)"
  by code_simp

section \<open>The cooldown of the form\<close>

text \<open>
  Claim C7, amended. For every call of \<open>handleSubmit\<close> whose form passes
  \<open>validateForm\<close>: when fewer than 3000 ms have passed since \<open>lastGenerated\<close> the call
  ends with the "please wait" error and sends no request; when 3000 ms or more have
  passed the request is sent. \<open>lastGenerated\<close> changes only when the request was sent
  and succeeded, so after a failed attempt the next attempt, however soon, is sent too.
\<close>

theorem cooldown_after_success:
  assumes "fst (validateForm s)"
  shows "(now br - lastGenerated s < 3000 \<longrightarrow>
            handleSubmit br s = (s\<lparr>error := ERR_PLEASE_WAIT\<rparr>, []))
       \<and> (3000 \<le> now br - lastGenerated s \<longrightarrow> snd (handleSubmit br s) = [formData s])
       \<and> lastGenerated (fst (handleSubmit br s)) =
           (if 3000 \<le> now br - lastGenerated s \<and> \<not> isl (request_article br (formData s))
            then now_after br else lastGenerated s)
       \<and> (3000 \<le> now br - lastGenerated s \<and> isl (request_article br (formData s)) \<and>
            now br \<le> now br' \<longrightarrow>
            snd (handleSubmit br' (fst (handleSubmit br s))) = [formData s])"
proof (intro conjI impI)
  assume "now br - lastGenerated s < 3000"
  then show "handleSubmit br s = (s\<lparr>error := ERR_PLEASE_WAIT\<rparr>, [])"
    using assms by (rule handleSubmit_cooldown [rotated])
next
  assume "3000 \<le> now br - lastGenerated s"
  then show "snd (handleSubmit br s) = [formData s]"
    using assms by (simp add: handleSubmit_sends)
next
  show "lastGenerated (fst (handleSubmit br s)) =
          (if 3000 \<le> now br - lastGenerated s \<and> \<not> isl (request_article br (formData s))
           then now_after br else lastGenerated s)"
  proof (cases "3000 \<le> now br - lastGenerated s")
    case True
    then show ?thesis
      using assms by (simp add: handleSubmit_sends split: sum.splits failure.splits)
  next
    case False
    then show ?thesis
      using assms by (simp add: handleSubmit_cooldown)
  qed
next
  assume a: "3000 \<le> now br - lastGenerated s \<and> isl (request_article br (formData s)) \<and>
             now br \<le> now br'"
  define s' where "s' = fst (handleSubmit br s)"
  have f: "formData s' = formData s" and l: "lastGenerated s' = lastGenerated s"
    using a assms unfolding s'_def
    by (auto simp: handleSubmit_sends split: sum.splits failure.splits)
  have v: "fst (validateForm s')"
    using assms validateForm_depends_on_formData [OF f] by simp
  have "3000 \<le> now br' - lastGenerated s'"
    using a l by simp
  then show "snd (handleSubmit br' (fst (handleSubmit br s))) = [formData s]"
    using v f unfolding s'_def [symmetric] by (simp add: handleSubmit_sends)
qed

text \<open>
  After a generation that ended at 1700000002500, a submission 1500 ms later is held
  back and one 3000 ms later is sent; a submission that failed offline is followed by
  one 20 ms later that is sent.
\<close>

theorem cooldown_after_success_witness:
  "lastGenerated generated_once = 1700000002500
   \<and> handleSubmit too_soon generated_once = (generated_once\<lparr>error := ERR_PLEASE_WAIT\<rparr>, [])
   \<and> snd (handleSubmit late_enough generated_once) = [formData generated_once]
   \<and> lastGenerated (fst (handleSubmit offline filled_form)) = lastGenerated filled_form
   \<and> snd (handleSubmit offline_again (fst (handleSubmit offline filled_form))) =
       [formData filled_form]"
proof -
  have 1: "now too_soon - lastGenerated generated_once < 3000" by code_simp
  have 2: "3000 \<le> now late_enough - lastGenerated generated_once" by code_simp
  have 3: "3000 \<le> now offline - lastGenerated filled_form"
          "isl (request_article offline (formData filled_form))"
          "now offline \<le> now offline_again"
    by code_simp+
  have 4: "lastGenerated generated_once = 1700000002500" by code_simp
  show ?thesis
    using cooldown_after_success [OF generated_once_valid, of too_soon too_soon]
      cooldown_after_success [OF generated_once_valid, of late_enough late_enough]
      cooldown_after_success [OF filled_form_valid, of offline offline_again]
      1 2 3 4
    by simp
qed

text \<open>
  C7 as stated speaks of every call made within the 3000 ms. \<open>validateForm\<close> runs
  first (line 67): with the topic cleared after a generation, a call 1500 ms later ends
  with "Please enter a topic", not with the "please wait" error.
\<close>

theorem invalid_form_counterexample:
  "now too_soon - lastGenerated topic_cleared < 3000 \<and>
   handleSubmit too_soon topic_cleared = (topic_cleared\<lparr>error := ERR_ENTER_TOPIC\<rparr>, []) \<and>
   ERR_ENTER_TOPIC \<noteq> ERR_PLEASE_WAIT"
  by code_simp

section \<open>The outcomes of a submission\<close>

text \<open>
  The outcomes when the body of the response can be read. For every call of
  \<open>handleSubmit\<close> that passes \<open>validateForm\<close> and the cooldown: when the response is
  not \<open>ok\<close> and its body parses, \<open>error\<close> becomes the \<open>error\<close> field of the body, or
  "Failed to generate article" when that field is absent or empty, and
  \<open>generatedArticle\<close> is left empty; when the response is \<open>ok\<close>, \<open>generatedArticle\<close>
  becomes the article of the response and \<open>lastGenerated\<close> the clock reading taken
  then; when \<open>fetch\<close> or the reading of the response body fails with an \<open>Error\<close>,
  \<open>error\<close> becomes its message and \<open>generatedArticle\<close> is left empty. In every case
  \<open>isLoading\<close> is false at the end, and one request was sent.
\<close>

theorem submit_outcomes:
  assumes "fst (validateForm s)" "3000 \<le> now br - lastGenerated s"
  shows "(fetch br (formData s) = Inr resp \<and> json_result resp = Inr data \<and> \<not> ok resp \<longrightarrow>
            page_state.error (fst (handleSubmit br s)) =
              (case GenerateResponse.error data of
                 None \<Rightarrow> ERR_RESPONSE_FALLBACK
               | Some m \<Rightarrow> if m = [] then ERR_RESPONSE_FALLBACK else m)
            \<and> generatedArticle (fst (handleSubmit br s)) = []
            \<and> lastGenerated (fst (handleSubmit br s)) = lastGenerated s)
       \<and> (fetch br (formData s) = Inr resp \<and> json_result resp = Inr data \<and> ok resp \<longrightarrow>
            generatedArticle (fst (handleSubmit br s)) = article data
            \<and> lastGenerated (fst (handleSubmit br s)) = now_after br
            \<and> page_state.error (fst (handleSubmit br s)) = [])
       \<and> (fetch br (formData s) = Inl (Error m') \<or>
           fetch br (formData s) = Inr resp \<and> json_result resp = Inl (Error m') \<longrightarrow>
            page_state.error (fst (handleSubmit br s)) = m'
            \<and> generatedArticle (fst (handleSubmit br s)) = []
            \<and> lastGenerated (fst (handleSubmit br s)) = lastGenerated s)
       \<and> isLoading (fst (handleSubmit br s)) = False
       \<and> snd (handleSubmit br s) = [formData s]"
  using assms
  by (auto simp: handleSubmit_sends request_article_def split: sum.splits failure.splits)

text \<open>A server failure, a success and a transport failure, from the same form.\<close>

theorem submit_outcomes_witness:
  "page_state.error (fst (handleSubmit throttled_by_server filled_form)) = MSG_RATE_LIMIT
   \<and> generatedArticle (fst (handleSubmit throttled_by_server filled_form)) = []
   \<and> isLoading (fst (handleSubmit throttled_by_server filled_form)) = False
   \<and> generatedArticle (fst (handleSubmit first_visit filled_form)) = js ''# Remote Work''
   \<and> lastGenerated (fst (handleSubmit first_visit filled_form)) = 1700000002500
   \<and> isLoading (fst (handleSubmit first_visit filled_form)) = False
   \<and> page_state.error (fst (handleSubmit offline filled_form)) = js ''Failed to fetch''
   \<and> isLoading (fst (handleSubmit offline filled_form)) = False"
proof -
  have c: "3000 \<le> now throttled_by_server - lastGenerated filled_form"
          "3000 \<le> now first_visit - lastGenerated filled_form"
          "3000 \<le> now offline - lastGenerated filled_form"
    by code_simp+
  have f: "fetch throttled_by_server (formData filled_form) =
             Inr \<lparr>ok = False, json_result = Inr rate_limit_reply\<rparr>"
          "fetch first_visit (formData filled_form) =
             Inr \<lparr>ok = True, json_result = Inr article_reply\<rparr>"
          "fetch offline (formData filled_form) = Inl (Error (js ''Failed to fetch''))"
    by (simp_all add: throttled_by_server_def first_visit_def offline_def fetch_answers_def
        fetch_rejects_def)
  have m: "MSG_RATE_LIMIT \<noteq> []" by (simp add: MSG_RATE_LIMIT_def js_eq_Nil_iff)
  show ?thesis
    using submit_outcomes [OF filled_form_valid c(1),
        of "\<lparr>ok = False, json_result = Inr rate_limit_reply\<rparr>" rate_limit_reply]
      submit_outcomes [OF filled_form_valid c(2),
        of "\<lparr>ok = True, json_result = Inr article_reply\<rparr>" article_reply]
      submit_outcomes [OF filled_form_valid c(3), of _ _ "js ''Failed to fetch''"]
      f m
    by (simp add: rate_limit_reply_def article_reply_def first_visit_def)
qed

text \<open>
  Claim C8. For every submission that passes validation and the cooldown: when the
  response indicates failure, \<open>error\<close> is set to the error message of the response, or
  to a generic fallback when none is provided, and \<open>generatedArticle\<close> is left empty;
  on success \<open>generatedArticle\<close> and \<open>lastGenerated\<close> are set; \<open>isLoading\<close> is false at
  the end in every case. The handler departs from the first part when a response that is
  not \<open>ok\<close> has a body that is not JSON (the error page of a gateway): line 91 awaits
  \<open>response.json()\<close> before line 93 tests \<open>response.ok\<close>, the rejection goes to the
  \<open>catch\<close> of line 99, and \<open>error\<close> becomes the text of the parse error, which is
  neither a message of the response nor the fallback. A failure reply that parses and
  carries no message does get the fallback.
\<close>

theorem unreadable_failure_reply:
  "handleSubmit gateway_error_page filled_form =
     (filled_form\<lparr>error := js ''Unexpected token < in JSON at position 0''\<rparr>,
      [formData filled_form])
   \<and> js ''Unexpected token < in JSON at position 0'' \<noteq> ERR_RESPONSE_FALLBACK
   \<and> handleSubmit failure_without_message filled_form =
     (filled_form\<lparr>error := ERR_RESPONSE_FALLBACK\<rparr>, [formData filled_form])"
  by code_simp

section \<open>The length checks of the page and of the endpoint\<close>

text \<open>
  Claim C10, amended. \<open>validateForm\<close> compares the untrimmed length of the topic with
  200 and the endpoint the trimmed one. For every topic whose untrimmed length exceeds
  200, \<open>validateForm\<close> returns false; it sets the length error when the trimmed topic
  is not empty, and "Please enter a topic" when it is. This includes topics whose
  trimmed length is between 1 and 200: on those the endpoint fails neither of its topic
  checks, and never answers with the topic length error.
\<close>

theorem client_length_check_untrimmed:
  "(200 < length (topic (formData s)) \<longrightarrow>
      validateForm s =
        (False, s\<lparr>error := (if trim (topic (formData s)) = [] then ERR_ENTER_TOPIC
                              else ERR_TOPIC_LENGTH)\<rparr>))
   \<and> (property b (js ''topic'') = Some (JStr (topic (formData s))) \<and>
       trim (topic (formData s)) \<noteq> [] \<and> length (trim (topic (formData s))) \<le> 200 \<longrightarrow>
       first_failed_check b \<noteq> Some TopicPresent \<and> first_failed_check b \<noteq> Some TopicLength \<and>
       response (POST eng (Inr b) api_key anthropic) \<noteq>
         \<lparr>status = 400, body = ErrorBody MSG_TOPIC_LENGTH\<rparr>)"
proof (intro conjI impI)
  assume "200 < length (topic (formData s))"
  then show "validateForm s =
        (False, s\<lparr>error := (if trim (topic (formData s)) = [] then ERR_ENTER_TOPIC
                              else ERR_TOPIC_LENGTH)\<rparr>)"
    by (simp add: validateForm_def)
next
  assume a: "property b (js ''topic'') = Some (JStr (topic (formData s))) \<and>
       trim (topic (formData s)) \<noteq> [] \<and> length (trim (topic (formData s))) \<le> 200"
  then show p: "first_failed_check b \<noteq> Some TopicPresent"
    and l: "first_failed_check b \<noteq> Some TopicLength"
    by (auto simp: first_failed_check_def)
  from a have n: "b \<noteq> JNull" by auto
  show "response (POST eng (Inr b) api_key anthropic) \<noteq>
         \<lparr>status = 400, body = ErrorBody MSG_TOPIC_LENGTH\<rparr>"
  proof (cases "first_failed_check b")
    case None
    from POST_passed_status [OF n None, of eng api_key anthropic] show ?thesis by auto
  next
    case (Some c)
    with p l have "check_message c \<noteq> MSG_TOPIC_LENGTH"
      using messages_distinct by (cases c) auto
    with POST_rejected [OF n Some, of eng api_key anthropic] show ?thesis by simp
  qed
qed

text \<open>
  "Remote Work" followed by 190 spaces: 201 code units, 11 after trimming. The page
  refuses it for its length and the endpoint's length check lets it pass.
\<close>

theorem client_length_check_untrimmed_witness:
  "length padded_topic = 201 \<and> length (trim padded_topic) = 11
   \<and> validateForm (handleInputChange Topic padded_topic filled_form) =
       (False, (handleInputChange Topic padded_topic filled_form)\<lparr>error := ERR_TOPIC_LENGTH\<rparr>)
   \<and> first_failed_check padded_request \<noteq> Some TopicLength"
proof -
  have t: "topic (formData (handleInputChange Topic padded_topic filled_form)) = padded_topic"
    by (simp add: handleInputChange_def)
  have l: "length padded_topic = 201" "length (trim padded_topic) = 11"
    by code_simp+
  have p: "property padded_request (js ''topic'') = Some (JStr padded_topic)"
    by (simp add: padded_request_def)
  have n: "trim padded_topic \<noteq> []" using l(2) by auto
  show ?thesis
    using client_length_check_untrimmed
      [of "handleInputChange Topic padded_topic filled_form" padded_request
          node_engine None "provider_returns []"]
    unfolding t using l p n by simp
qed

text \<open>
  C10 as stated gives the length error to every topic longer than 200. A topic of 201
  spaces fails the first test of \<open>validateForm\<close> (line 45), which sets "Please enter a
  topic".
\<close>

theorem blank_topic_counterexample:
  "200 < length blank_topic \<and>
   validateForm (handleInputChange Topic blank_topic filled_form) =
     (False, (handleInputChange Topic blank_topic filled_form)\<lparr>error := ERR_ENTER_TOPIC\<rparr>) \<and>
   ERR_ENTER_TOPIC \<noteq> ERR_TOPIC_LENGTH"
  by code_simp

end
